theory Spec2Isabelle
  imports Complex_Main
begin

section \<open>Python values and exceptions\<close>

text \<open>
  The notebook \<^verbatim>\<open>examples/WFMD_v1.8_complete.ipynb\<close> defines one function,
  \<^verbatim>\<open>load_grid_from_netcdf\<close>. Every exception it can raise is a constructor of
  \<open>pyerr\<close>; a computation that may raise returns \<open>pyerr + 'a\<close> with \<open>Inl\<close> the
  exception. \<open>OSError\<close> stands for the failure of \<^verbatim>\<open>xr.load_dataset\<close> on a path
  that cannot be read (Python's \<^verbatim>\<open>FileNotFoundError\<close> is an \<^verbatim>\<open>OSError\<close>),
  \<open>ArithmeticError\<close> for a division by zero (\<^verbatim>\<open>ZeroDivisionError\<close> on Python
  numbers, \<^verbatim>\<open>OverflowError\<close> from \<^verbatim>\<open>int(inf)\<close> on numpy scalars; both are
  subclasses of \<^verbatim>\<open>ArithmeticError\<close>).

  Numbers are exact: coordinates, bounds and numeric attributes are rationals, day
  offsets are integers. Rounding of binary floating point and the values
  \<^verbatim>\<open>nan\<close> and \<^verbatim>\<open>inf\<close> are outside the model. The cell values of the three data
  arrays are only copied by the function, so their type is a parameter \<open>'v\<close>.
\<close>

datatype pyerr =
    ValueError
  | OSError
  | KeyError string
  | TypeError
  | ArithmeticError
  | IndexError

datatype attr = Str string | Num rat

definition getitem :: "(string \<rightharpoonup> 'a) \<Rightarrow> string \<Rightarrow> pyerr + 'a" where
  \<comment> \<open>\<^verbatim>\<open>mapping[key]\<close> on a dict\<close>
  "getitem m k = (case m k of None \<Rightarrow> Inl (KeyError k) | Some v \<Rightarrow> Inr v)"

definition as_num :: "attr \<Rightarrow> pyerr + rat" where
  \<comment> \<open>an operand of \<^verbatim>\<open>-\<close> or \<^verbatim>\<open>/\<close>: a number, or \<^verbatim>\<open>TypeError\<close> for a string\<close>
  "as_num a = (case a of Num q \<Rightarrow> Inr q | Str _ \<Rightarrow> Inl TypeError)"

definition py_truediv :: "rat \<Rightarrow> rat \<Rightarrow> pyerr + rat" where
  \<comment> \<open>\<^verbatim>\<open>p / q\<close> on numbers\<close>
  "py_truediv p q = (if q = 0 then Inl ArithmeticError else Inr (p / q))"

definition py_int :: "rat \<Rightarrow> int" where
  \<comment> \<open>\<^verbatim>\<open>int(x)\<close> truncates towards zero\<close>
  "py_int q = (if 0 \<le> q then \<lfloor>q\<rfloor> else \<lceil>q\<rceil>)"

definition np_zeros :: "int \<times> int \<Rightarrow> pyerr + unit" where
  \<comment> \<open>\<^verbatim>\<open>np.zeros((n, m))\<close>: negative dimensions are not allowed. The array it
      allocates is never read by the function, so only the check is kept.\<close>
  "np_zeros sh = (if fst sh < 0 \<or> snd sh < 0 then Inl ValueError else Inr ())"

definition unpack4 :: "'a list \<Rightarrow> pyerr + ('a \<times> 'a \<times> 'a \<times> 'a)" where
  \<comment> \<open>\<^verbatim>\<open>p, q, r, s = seq\<close>: too few or too many values raise \<^verbatim>\<open>ValueError\<close>\<close>
  "unpack4 xs = (case xs of [p, q, r, s] \<Rightarrow> Inr (p, q, r, s) | _ \<Rightarrow> Inl ValueError)"


section \<open>Dates: \<^verbatim>\<open>datetime.datetime(y, m, d) - datetime.datetime(1970, 1, 1)\<close>\<close>

text \<open>
  The proleptic Gregorian ordinal of Python's \<^verbatim>\<open>datetime\<close> module, written after
  the functions of the standard library that compute it: day 1 is 0001-01-01. The
  difference of two dates at midnight has the difference of their ordinals as
  \<^verbatim>\<open>.days\<close>. The constructor raises \<^verbatim>\<open>ValueError\<close> for a year outside 1..9999, a
  month outside 1..12 or a day outside 1..(days in that month).
\<close>

definition is_leap :: "int \<Rightarrow> bool" where
  "is_leap year \<longleftrightarrow> year mod 4 = 0 \<and> (year mod 100 \<noteq> 0 \<or> year mod 400 = 0)"

definition DAYS_IN_MONTH :: "int list" where
  "DAYS_IN_MONTH = [-1, 31, 28, 31, 30, 31, 30, 31, 31, 30, 31, 30, 31]"

definition DAYS_BEFORE_MONTH :: "int list" where
  "DAYS_BEFORE_MONTH = [-1, 0, 31, 59, 90, 120, 151, 181, 212, 243, 273, 304, 334]"

definition days_before_year :: "int \<Rightarrow> int" where
  "days_before_year year =
     (let y = year - 1 in y * 365 + y div 4 - y div 100 + y div 400)"

definition days_in_month :: "int \<Rightarrow> int \<Rightarrow> int" where
  "days_in_month year month =
     (if month = 2 \<and> is_leap year then 29 else DAYS_IN_MONTH ! nat month)"

definition days_before_month :: "int \<Rightarrow> int \<Rightarrow> int" where
  "days_before_month year month =
     DAYS_BEFORE_MONTH ! nat month + (if month > 2 \<and> is_leap year then 1 else 0)"

definition ymd2ord :: "int \<Rightarrow> int \<Rightarrow> int \<Rightarrow> int" where
  "ymd2ord year month day = days_before_year year + days_before_month year month + day"

definition check_date_fields :: "int \<Rightarrow> int \<Rightarrow> int \<Rightarrow> bool" where
  "check_date_fields year month day \<longleftrightarrow>
     1 \<le> year \<and> year \<le> 9999 \<and> 1 \<le> month \<and> month \<le> 12 \<and>
     1 \<le> day \<and> day \<le> days_in_month year month"

definition days_since_epoch :: "int \<Rightarrow> int \<Rightarrow> int \<Rightarrow> pyerr + int" where
  \<comment> \<open>\<^verbatim>\<open>(datetime.datetime(y, m, d) - datetime.datetime(1970, 1, 1)).days\<close>\<close>
  "days_since_epoch year month day =
     (if check_date_fields year month day
      then Inr (ymd2ord year month day - ymd2ord 1970 1 1)
      else Inl ValueError)"


section \<open>xarray variables\<close>

text \<open>
  A one-dimensional \<^verbatim>\<open>xarray.Variable\<close> is its dimension name and its values. A
  three-dimensional one is its dimension names, its shape and its cells in row-major
  order; the cell at \<open>(i, j, k)\<close> of shape \<open>(n1, n2, n3)\<close> is at position
  \<open>(i * n2 + j) * n3 + k\<close>, and a three-dimensional array has \<open>n1 * n2 * n3\<close> cells.
\<close>

record 'a var1 =
  dim1 :: string
  values1 :: "'a list"

record 'v var3 =
  dims3 :: "string \<times> string \<times> string"
  shape3 :: "nat \<times> nat \<times> nat"
  data3 :: "'v list"

definition var_ge :: "('a::linorder) var1 \<Rightarrow> 'a \<Rightarrow> bool var1" where
  \<comment> \<open>\<^verbatim>\<open>v >= c\<close>, elementwise\<close>
  "var_ge v c = \<lparr>dim1 = dim1 v, values1 = map (\<lambda>e. c \<le> e) (values1 v)\<rparr>"

definition var_le :: "('a::linorder) var1 \<Rightarrow> 'a \<Rightarrow> bool var1" where
  \<comment> \<open>\<^verbatim>\<open>v <= c\<close>, elementwise\<close>
  "var_le v c = \<lparr>dim1 = dim1 v, values1 = map (\<lambda>e. e \<le> c) (values1 v)\<rparr>"

definition var_lt :: "('a::linorder) var1 \<Rightarrow> 'a \<Rightarrow> bool var1" where
  \<comment> \<open>\<^verbatim>\<open>v < c\<close>, elementwise\<close>
  "var_lt v c = \<lparr>dim1 = dim1 v, values1 = map (\<lambda>e. e < c) (values1 v)\<rparr>"

definition var_and :: "bool var1 \<Rightarrow> bool var1 \<Rightarrow> bool var1" where
  \<comment> \<open>\<^verbatim>\<open>p & q\<close> on two masks over the same dimension\<close>
  "var_and p q =
     \<lparr>dim1 = dim1 p, values1 = map (\<lambda>(s, t). s \<and> t) (zip (values1 p) (values1 q))\<rparr>"

definition valid_indexer :: "string \<Rightarrow> nat \<Rightarrow> bool var1 \<Rightarrow> bool" where
  \<comment> \<open>xarray's check of a boolean indexer: it must be on the dimension it indexes and
      as long as that axis, else \<^verbatim>\<open>IndexError\<close>\<close>
  "valid_indexer d n k \<longleftrightarrow> dim1 k = d \<and> length (values1 k) = n"

definition true_indices :: "bool list \<Rightarrow> nat list" where
  \<comment> \<open>the positions a boolean mask selects, in increasing order\<close>
  "true_indices m = filter (\<lambda>i. m ! i) [0..<length m]"

definition index1 :: "'a var1 \<Rightarrow> bool var1 \<Rightarrow> pyerr + 'a var1" where
  \<comment> \<open>\<^verbatim>\<open>v[mask]\<close> on a one-dimensional variable\<close>
  "index1 v k =
     (if valid_indexer (dim1 v) (length (values1 v)) k
      then Inr \<lparr>dim1 = dim1 v, values1 = map (\<lambda>i. values1 v ! i) (true_indices (values1 k))\<rparr>
      else Inl IndexError)"

definition index3 :: "'v var3 \<Rightarrow> bool var1 \<Rightarrow> bool var1 \<Rightarrow> bool var1 \<Rightarrow> pyerr + 'v var3" where
  \<comment> \<open>\<^verbatim>\<open>v[a, b, c]\<close> with three one-dimensional boolean variables on three different
      dimensions: xarray indexes each axis independently (outer indexing)\<close>
  "index3 v a b c =
     (case (dims3 v, shape3 v) of ((d1, d2, d3), (n1, n2, n3)) \<Rightarrow>
        if valid_indexer d1 n1 a \<and> valid_indexer d2 n2 b \<and> valid_indexer d3 n3 c
        then Inr \<lparr>dims3 = (d1, d2, d3),
                  shape3 = (length (true_indices (values1 a)),
                            length (true_indices (values1 b)),
                            length (true_indices (values1 c))),
                  data3 = concat (map (\<lambda>i. concat (map (\<lambda>j.
                            map (\<lambda>k. data3 v ! ((i * n2 + j) * n3 + k))
                              (true_indices (values1 c)))
                            (true_indices (values1 b))))
                            (true_indices (values1 a)))\<rparr>
        else Inl IndexError)"


section \<open>The dataset and the file handle\<close>

text \<open>
  What \<^verbatim>\<open>xr.load_dataset(path)\<close> gives for a readable file: the global attributes
  (a dict) and the variables the function asks for, each absent or present. The file
  system maps a path to its dataset; a path with no dataset cannot be read. Opening
  and closing are recorded in a trace, so the state of the handle can be read off
  where the function returns.
\<close>

record 'v dataset =
  attrs :: "string \<rightharpoonup> attr"
  variables_lon :: "rat var1 option"
  variables_lat :: "rat var1 option"
  variables_day :: "int var1 option"
  variables_xch4 :: "'v var3 option"
  variables_xch4_err :: "'v var3 option"
  variables_N :: "'v var3 option"

definition variables :: "'a option \<Rightarrow> string \<Rightarrow> pyerr + 'a" where
  \<comment> \<open>\<^verbatim>\<open>ds.variables[name]\<close>\<close>
  "variables slot name = (case slot of None \<Rightarrow> Inl (KeyError name) | Some v \<Rightarrow> Inr v)"

datatype event = Opened string | Closed string

type_synonym 'a io = "event list \<Rightarrow> event list \<times> (pyerr + 'a)"

definition bind_io :: "'a io \<Rightarrow> ('a \<Rightarrow> 'b io) \<Rightarrow> 'b io" where
  \<comment> \<open>run the first statement; an exception ends the function, leaving the trace\<close>
  "bind_io m f = (\<lambda>s. case m s of (s', Inl e) \<Rightarrow> (s', Inl e) | (s', Inr v) \<Rightarrow> f v s')"

definition pure_io :: "pyerr + 'a \<Rightarrow> 'a io" where
  "pure_io r = (\<lambda>s. (s, r))"

definition xr_load_dataset :: "(string \<rightharpoonup> 'v dataset) \<Rightarrow> string \<Rightarrow> 'v dataset io" where
  "xr_load_dataset fs path =
     (\<lambda>s. case fs path of
            None \<Rightarrow> (s, Inl OSError)
          | Some ds \<Rightarrow> (s @ [Opened path], Inr ds))"

definition ds_close :: "string \<Rightarrow> unit io" where
  "ds_close path = (\<lambda>s. (s @ [Closed path], Inr ()))"


section \<open>\<^verbatim>\<open>load_grid_from_netcdf\<close>\<close>

text \<open>
  The result tuple, one field per position:
  \<^verbatim>\<open>xch4, sdev, N, x.values, y.values, d, grid_dim, product_type, ref_time\<close>;
  \<open>x\<close> is the longitude variable and \<open>y\<close> the latitude variable. The returned
  dict \<^verbatim>\<open>grid_dim\<close> is the list of its items in insertion order.
\<close>

record 'v grid_slice =
  r_xch4 :: "'v var3"
  r_sdev :: "'v var3"
  r_N :: "'v var3"
  r_x :: "rat list"
  r_y :: "rat list"
  r_d :: "int var1"
  r_grid_dim :: "(string \<times> rat) list"
  r_product_type :: attr
  r_ref_time :: attr

definition load_grid_from_netcdf ::
  "(string \<rightharpoonup> 'v dataset) \<Rightarrow> int \<Rightarrow> int \<Rightarrow> int \<Rightarrow> int \<Rightarrow> int \<Rightarrow> int \<Rightarrow> string \<Rightarrow>
   rat list option \<Rightarrow> 'v grid_slice io" where
  "load_grid_from_netcdf fs d1 m1 y1 d2 m2 y2 path grid_dim =
     bind_io (pure_io (days_since_epoch y1 m1 d1)) (\<lambda>date_min.
     bind_io (pure_io (days_since_epoch y2 m2 d2)) (\<lambda>date_max.
     bind_io (xr_load_dataset fs path) (\<lambda>ds.
     bind_io (pure_io (getitem (attrs ds) ''product_type'')) (\<lambda>product_type.
     bind_io (pure_io (getitem (attrs ds) ''lat_low'')) (\<lambda>LAT_LOW.
     bind_io (pure_io (getitem (attrs ds) ''lat_high'')) (\<lambda>LAT_HIGH.
     bind_io (pure_io (getitem (attrs ds) ''lon_low'')) (\<lambda>LON_LOW.
     bind_io (pure_io (getitem (attrs ds) ''lon_high'')) (\<lambda>LON_HIGH.
     bind_io (pure_io (getitem (attrs ds) ''lat_res'')) (\<lambda>LAT_STEP.
     bind_io (pure_io (getitem (attrs ds) ''lon_res'')) (\<lambda>LON_STEP.
     bind_io (pure_io (as_num LAT_HIGH)) (\<lambda>lat_high.
     bind_io (pure_io (as_num LAT_LOW)) (\<lambda>lat_low.
     bind_io (pure_io (as_num LAT_STEP)) (\<lambda>lat_step.
     bind_io (pure_io (py_truediv (lat_high - lat_low) lat_step)) (\<lambda>lat_bins.
     let latd = py_int lat_bins in
     bind_io (pure_io (as_num LON_HIGH)) (\<lambda>lon_high.
     bind_io (pure_io (as_num LON_LOW)) (\<lambda>lon_low.
     bind_io (pure_io (as_num LON_STEP)) (\<lambda>lon_step.
     bind_io (pure_io (py_truediv (lon_high - lon_low) lon_step)) (\<lambda>lon_bins.
     let lond = py_int lon_bins in
     bind_io (pure_io (np_zeros (latd, lond))) (\<lambda>_.
     bind_io (pure_io (np_zeros (latd, lond))) (\<lambda>_.
     bind_io (pure_io (variables (variables_lon ds) ''lon'')) (\<lambda>x.
     bind_io (pure_io (variables (variables_lat ds) ''lat'')) (\<lambda>y.
     bind_io (pure_io (variables (variables_day ds) ''day'')) (\<lambda>d.
     bind_io (pure_io (getitem (attrs ds) ''reference_time'')) (\<lambda>ref_time.
     bind_io (pure_io
       (case grid_dim of
          Some g \<Rightarrow> unpack4 g
        | None \<Rightarrow> Inr (lat_low, lat_high, lon_low, lon_high)))
       (\<lambda>(lat_min, lat_max, lon_min, lon_max).
     let a = var_and (var_ge y lat_min) (var_lt y lat_max);
         b = var_and (var_ge x lon_min) (var_lt x lon_max)
     in
     bind_io (pure_io (variables (variables_xch4 ds) ''xch4'')) (\<lambda>v_xch4.
     bind_io (pure_io (index3 v_xch4 a b (var_and (var_ge d date_min) (var_le d date_max)))) (\<lambda>xch4.
     bind_io (pure_io (variables (variables_xch4_err ds) ''xch4_err'')) (\<lambda>v_err.
     bind_io (pure_io (index3 v_err a b (var_and (var_ge d date_min) (var_le d date_max)))) (\<lambda>sdev.
     bind_io (pure_io (variables (variables_N ds) ''N'')) (\<lambda>v_N.
     bind_io (pure_io (index3 v_N a b (var_and (var_ge d date_min) (var_le d date_max)))) (\<lambda>N.
     bind_io (pure_io (index1 d (var_and (var_ge d date_min) (var_le d date_max)))) (\<lambda>d'.
     bind_io (pure_io (index1 x b)) (\<lambda>x'.
     bind_io (pure_io (index1 y a)) (\<lambda>y'.
     bind_io (ds_close path) (\<lambda>_.
     pure_io (Inr
       \<lparr>r_xch4 = xch4, r_sdev = sdev, r_N = N,
        r_x = values1 x', r_y = values1 y', r_d = d',
        r_grid_dim =
          [(''LAT_LOW'', lat_min), (''LAT_HIGH'', lat_max),
           (''LON_LOW'', lon_min), (''LON_HIGH'', lon_max),
           (''LAT_STEP'', lat_step), (''LON_STEP'', lon_step)],
        r_product_type = product_type,
        r_ref_time = ref_time\<rparr>))))))))))))))))))))))))))))))))))))"


section \<open>Vocabulary of the properties\<close>


definition declares ::
  "'v dataset \<Rightarrow> attr \<Rightarrow> rat \<Rightarrow> rat \<Rightarrow> rat \<Rightarrow> rat \<Rightarrow> rat \<Rightarrow> rat \<Rightarrow> attr \<Rightarrow> bool" where
  \<comment> \<open>the eight global attributes the function reads, the six numeric ones being numbers\<close>
  "declares ds product_type lat_low lat_high lon_low lon_high lat_step lon_step ref_time \<longleftrightarrow>
     attrs ds ''product_type'' = Some product_type \<and>
     attrs ds ''lat_low'' = Some (Num lat_low) \<and>
     attrs ds ''lat_high'' = Some (Num lat_high) \<and>
     attrs ds ''lon_low'' = Some (Num lon_low) \<and>
     attrs ds ''lon_high'' = Some (Num lon_high) \<and>
     attrs ds ''lat_res'' = Some (Num lat_step) \<and>
     attrs ds ''lon_res'' = Some (Num lon_step) \<and>
     attrs ds ''reference_time'' = Some ref_time"

definition declared_bins :: "rat \<Rightarrow> rat \<Rightarrow> rat \<Rightarrow> int" where
  \<comment> \<open>\<^verbatim>\<open>int((HIGH - LOW) / STEP)\<close>, the number of bins the attributes declare\<close>
  "declared_bins low high step = py_int ((high - low) / step)"

definition has_coords :: "'v dataset \<Rightarrow> rat var1 \<Rightarrow> rat var1 \<Rightarrow> int var1 \<Rightarrow> bool" where
  "has_coords ds x y d \<longleftrightarrow>
     variables_lon ds = Some x \<and> variables_lat ds = Some y \<and> variables_day ds = Some d"

definition has_arrays :: "'v dataset \<Rightarrow> 'v var3 \<Rightarrow> 'v var3 \<Rightarrow> 'v var3 \<Rightarrow> bool" where
  "has_arrays ds v_xch4 v_err v_N \<longleftrightarrow>
     variables_xch4 ds = Some v_xch4 \<and> variables_xch4_err ds = Some v_err \<and>
     variables_N ds = Some v_N"

definition on_axes :: "'v var3 \<Rightarrow> rat var1 \<Rightarrow> rat var1 \<Rightarrow> int var1 \<Rightarrow> bool" where
  \<comment> \<open>a data array on the dimensions (lat, lon, day) of the coordinate variables\<close>
  "on_axes v y x d \<longleftrightarrow>
     dims3 v = (dim1 y, dim1 x, dim1 d) \<and>
     shape3 v = (length (values1 y), length (values1 x), length (values1 d))"




definition grid_axis :: "rat \<Rightarrow> rat \<Rightarrow> nat \<Rightarrow> rat list" where
  \<comment> \<open>the lower cell boundaries of \<open>n\<close> bins of width \<open>step\<close> from \<open>low\<close>\<close>
  "grid_axis low step n = map (\<lambda>i. low + step * of_nat i) [0..<n]"









section \<open>Example files\<close>

definition cube :: "nat \<Rightarrow> nat \<Rightarrow> nat \<Rightarrow> rat list \<Rightarrow> rat var3" where
  "cube n1 n2 n3 cells = \<lparr>dims3 = (''lat'', ''lon'', ''day''), shape3 = (n1, n2, n3), data3 = cells\<rparr>"

definition ds_small :: "rat dataset" where
  \<comment> \<open>3 latitudes, 2 longitudes, 2 days\<close>
  "ds_small =
     \<lparr>attrs = map_of
        [(''product_type'', Str ''WFMD''), (''lat_low'', Num 0), (''lat_high'', Num 6),
         (''lon_low'', Num 0), (''lon_high'', Num 4), (''lat_res'', Num 2), (''lon_res'', Num 2),
         (''reference_time'', Str ''1970-01-01'')],
      variables_lon = Some \<lparr>dim1 = ''lon'', values1 = [0, 2]\<rparr>,
      variables_lat = Some \<lparr>dim1 = ''lat'', values1 = [0, 2, 4]\<rparr>,
      variables_day = Some \<lparr>dim1 = ''day'', values1 = [17532, 17533]\<rparr>,
      variables_xch4 = Some (cube 3 2 2 [1, 2, 3, 4, 5, 6, 7, 8, 9, 10, 11, 12]),
      variables_xch4_err = Some (cube 3 2 2 [1, 1, 1, 1, 2, 2, 2, 2, 3, 3, 3, 3]),
      variables_N = Some (cube 3 2 2 [5, 5, 5, 5, 5, 5, 6, 6, 6, 6, 6, 6])\<rparr>"

definition ds_mismatch :: "rat dataset" where
  \<comment> \<open>declares 5 latitude and 5 longitude bins, holds arrays of shape (1, 1, 1)\<close>
  "ds_mismatch =
     \<lparr>attrs = map_of
        [(''product_type'', Str ''WFMD''), (''lat_low'', Num 0), (''lat_high'', Num 10),
         (''lon_low'', Num 0), (''lon_high'', Num 10), (''lat_res'', Num 2), (''lon_res'', Num 2),
         (''reference_time'', Str ''1970-01-01'')],
      variables_lon = Some \<lparr>dim1 = ''lon'', values1 = [0]\<rparr>,
      variables_lat = Some \<lparr>dim1 = ''lat'', values1 = [0]\<rparr>,
      variables_day = Some \<lparr>dim1 = ''day'', values1 = [17532]\<rparr>,
      variables_xch4 = Some (cube 1 1 1 [7]),
      variables_xch4_err = Some (cube 1 1 1 [1]),
      variables_N = Some (cube 1 1 1 [3])\<rparr>"

definition ds_global :: "rat dataset" where
  \<comment> \<open>a 2-degree global grid: 90 latitude bins from -90, 180 longitude bins from -180,
      days 17532 to 17600\<close>
  "ds_global =
     \<lparr>attrs = map_of
        [(''product_type'', Str ''WFMD''), (''lat_low'', Num (-90)), (''lat_high'', Num 90),
         (''lon_low'', Num (-180)), (''lon_high'', Num 180), (''lat_res'', Num 2),
         (''lon_res'', Num 2), (''reference_time'', Str ''1970-01-01'')],
      variables_lon = Some \<lparr>dim1 = ''lon'', values1 = grid_axis (-180) 2 180\<rparr>,
      variables_lat = Some \<lparr>dim1 = ''lat'', values1 = grid_axis (-90) 2 90\<rparr>,
      variables_day = Some \<lparr>dim1 = ''day'', values1 = map (\<lambda>i. 17532 + int i) [0..<69]\<rparr>,
      variables_xch4 = Some (cube 90 180 69 (replicate (90 * 180 * 69) 1800)),
      variables_xch4_err = Some (cube 90 180 69 (replicate (90 * 180 * 69) 10)),
      variables_N = Some (cube 90 180 69 (replicate (90 * 180 * 69) 4))\<rparr>"

definition fs_example :: "string \<rightharpoonup> rat dataset" where
  \<comment> \<open>a file system; no other path can be read\<close>
  "fs_example =
     [''small.nc'' \<mapsto> ds_small,
      ''mismatch.nc'' \<mapsto> ds_mismatch,
      ''global.nc'' \<mapsto> ds_global,
      ''zerostep.nc'' \<mapsto> ds_small\<lparr>attrs := (attrs ds_small)(''lat_res'' \<mapsto> Num 0)\<rparr>,
      ''reversed.nc'' \<mapsto> ds_small\<lparr>attrs := (attrs ds_small)(''lat_high'' \<mapsto> Num (-6))\<rparr>,
      ''noref.nc'' \<mapsto> ds_small\<lparr>attrs := (attrs ds_small)(''reference_time'' := None)\<rparr>,
      ''nores.nc'' \<mapsto> ds_small\<lparr>attrs := (attrs ds_small)(''lat_res'' := None)\<rparr>,
      ''noerr.nc'' \<mapsto> ds_small\<lparr>variables_xch4_err := None\<rparr>]"

definition small_result :: "rat grid_slice" where
  \<comment> \<open>\<^verbatim>\<open>small.nc\<close> from 2018-01-01 to 2018-01-02 within the bounds (2, 6, 0, 2)\<close>
  "small_result =
     \<lparr>r_xch4 = cube 2 1 2 [5, 6, 9, 10],
      r_sdev = cube 2 1 2 [2, 2, 3, 3],
      r_N = cube 2 1 2 [5, 5, 6, 6],
      r_x = [0], r_y = [2, 4],
      r_d = \<lparr>dim1 = ''day'', values1 = [17532, 17533]\<rparr>,
      r_grid_dim =
        [(''LAT_LOW'', 2), (''LAT_HIGH'', 6), (''LON_LOW'', 0), (''LON_HIGH'', 2),
         (''LAT_STEP'', 2), (''LON_STEP'', 2)],
      r_product_type = Str ''WFMD'',
      r_ref_time = Str ''1970-01-01''\<rparr>"





section \<open>Statements one at a time\<close>

lemma bind_pure_Inr_iff:
  "bind_io (pure_io m) f s = (tr, Inr r) \<longleftrightarrow> (\<exists>v. m = Inr v \<and> f v s = (tr, Inr r))"
  by (cases m) (simp_all add: bind_io_def pure_io_def)

lemma bind_load_Inr_iff:
  "bind_io (xr_load_dataset fs path) f s = (tr, Inr r) \<longleftrightarrow>
     (\<exists>ds. fs path = Some ds \<and> f ds (s @ [Opened path]) = (tr, Inr r))"
  by (cases "fs path") (simp_all add: bind_io_def xr_load_dataset_def)

lemma bind_close: "bind_io (ds_close path) f s = f () (s @ [Closed path])"
  by (simp add: bind_io_def ds_close_def)

lemma pure_io_eq: "pure_io m s = (tr, res) \<longleftrightarrow> tr = s \<and> res = m"
  by (auto simp: pure_io_def)

lemma bind_pure_Inr: "bind_io (pure_io (Inr v)) f = f v"
  by (simp add: bind_io_def pure_io_def)

lemma bind_pure_Inl: "bind_io (pure_io (Inl e)) f = pure_io (Inl e)"
  by (simp add: bind_io_def pure_io_def)

lemma bind_load_Some:
  "fs path = Some ds \<Longrightarrow> bind_io (xr_load_dataset fs path) f s = f ds (s @ [Opened path])"
  by (simp add: bind_io_def xr_load_dataset_def)


lemma getitem_Inr_iff: "getitem m k = Inr v \<longleftrightarrow> m k = Some v"
  by (simp add: getitem_def split: option.splits)

lemma variables_Inr_iff: "variables slot n = Inr v \<longleftrightarrow> slot = Some v"
  by (simp add: variables_def split: option.splits)

lemma as_num_Inr_iff: "as_num a = Inr q \<longleftrightarrow> a = Num q"
  by (simp add: as_num_def split: attr.splits)

lemma py_truediv_Inr_iff: "py_truediv p q = Inr z \<longleftrightarrow> q \<noteq> 0 \<and> z = p / q"
  by (auto simp: py_truediv_def)

lemma np_zeros_Inr_iff: "np_zeros sh = Inr u \<longleftrightarrow> 0 \<le> fst sh \<and> 0 \<le> snd sh"
  by (auto simp: np_zeros_def)

lemma unpack4_Inr_iff: "unpack4 g = Inr (p, q, r, s) \<longleftrightarrow> g = [p, q, r, s]"
  by (auto simp: unpack4_def split: list.splits)

lemma unpack4_length: "unpack4 g = Inr t \<Longrightarrow> length g = 4"
  by (auto simp: unpack4_def split: list.splits)

lemma unpack4_Inl: "length g \<noteq> 4 \<Longrightarrow> unpack4 g = Inl ValueError"
  by (auto simp: unpack4_def split: list.splits)

lemma days_since_epoch_Inr_iff:
  "days_since_epoch y m d = Inr n \<longleftrightarrow>
     check_date_fields y m d \<and> n = ymd2ord y m d - ymd2ord 1970 1 1"
  by (auto simp: days_since_epoch_def)

section \<open>Exceptions after the file is open\<close>







section \<open>Masks and indexing\<close>

lemma mask_values:
  "map (\<lambda>(s, t). s \<and> t) (zip (map f xs) (map g xs)) = map (\<lambda>e. f e \<and> g e) xs"
  by (induction xs) simp_all

lemma true_indices_map: "map (\<lambda>i. xs ! i) (true_indices (map P xs)) = filter P xs"
proof -
  have "filter P xs = filter P (map (\<lambda>i. xs ! i) [0..<length xs])"
    by (simp add: map_nth)
  also have "\<dots> = map (\<lambda>i. xs ! i) (filter (\<lambda>i. P (xs ! i)) [0..<length xs])"
    by (simp add: filter_map comp_def)
  also have "filter (\<lambda>i. P (xs ! i)) [0..<length xs] = true_indices (map P xs)"
    unfolding true_indices_def by (rule filter_cong) simp_all
  finally show ?thesis by simp
qed

lemma length_true_indices_map: "length (true_indices (map P xs)) = length (filter P xs)"
  using arg_cong [OF true_indices_map [of xs P], of length] by simp

lemma values1_range_mask:
  "values1 (var_and (var_ge v lo) (var_lt v hi)) = map (\<lambda>e. lo \<le> e \<and> e < hi) (values1 v)"
  by (simp add: var_and_def var_ge_def var_lt_def mask_values)

lemma values1_closed_mask:
  "values1 (var_and (var_ge v lo) (var_le v hi)) = map (\<lambda>e. lo \<le> e \<and> e \<le> hi) (values1 v)"
  by (simp add: var_and_def var_ge_def var_le_def mask_values)

lemma dim1_range_mask: "dim1 (var_and (var_ge v lo) q) = dim1 v"
  by (simp add: var_and_def var_ge_def)

lemma index1_range_mask:
  "index1 v (var_and (var_ge v lo) (var_lt v hi)) =
     Inr \<lparr>dim1 = dim1 v, values1 = filter (\<lambda>e. lo \<le> e \<and> e < hi) (values1 v)\<rparr>"
  by (simp add: index1_def valid_indexer_def dim1_range_mask values1_range_mask true_indices_map)

lemma index1_closed_mask:
  "index1 v (var_and (var_ge v lo) (var_le v hi)) =
     Inr \<lparr>dim1 = dim1 v, values1 = filter (\<lambda>e. lo \<le> e \<and> e \<le> hi) (values1 v)\<rparr>"
  by (simp add: index1_def valid_indexer_def dim1_range_mask values1_closed_mask true_indices_map)

lemma length_concat_const:
  "(\<And>x. x \<in> set xs \<Longrightarrow> length (f x) = n) \<Longrightarrow> length (concat (map f xs)) = length xs * n"
  by (induction xs) simp_all

lemma index3_Inr_D:
  assumes "index3 v a b c = Inr w"
  shows "valid_indexer (fst (dims3 v)) (fst (shape3 v)) a"
    and "valid_indexer (fst (snd (dims3 v))) (fst (snd (shape3 v))) b"
    and "valid_indexer (snd (snd (dims3 v))) (snd (snd (shape3 v))) c"
    and "dims3 w = dims3 v"
    and "shape3 w = (length (true_indices (values1 a)), length (true_indices (values1 b)),
                     length (true_indices (values1 c)))"
    and "length (data3 w) = length (true_indices (values1 a)) * length (true_indices (values1 b)) *
                     length (true_indices (values1 c))"
  using assms
  by (auto simp: index3_def length_concat_const split: prod.splits if_splits)



section \<open>Normal return\<close>

lemma load_grid_Inr_iff:
  "load_grid_from_netcdf fs d1 m1 y1 d2 m2 y2 path grid_dim s = (tr, Inr r) \<longleftrightarrow>
   (\<exists>date_min date_max ds product_type lat_low lat_high lon_low lon_high lat_step lon_step
      x y d ref_time bnds v_xch4 v_err v_N xch4 sdev N d' x' y'.
    days_since_epoch y1 m1 d1 = Inr date_min \<and>
    days_since_epoch y2 m2 d2 = Inr date_max \<and>
    fs path = Some ds \<and>
    attrs ds ''product_type'' = Some product_type \<and>
    attrs ds ''lat_low'' = Some (Num lat_low) \<and>
    attrs ds ''lat_high'' = Some (Num lat_high) \<and>
    attrs ds ''lon_low'' = Some (Num lon_low) \<and>
    attrs ds ''lon_high'' = Some (Num lon_high) \<and>
    attrs ds ''lat_res'' = Some (Num lat_step) \<and>
    attrs ds ''lon_res'' = Some (Num lon_step) \<and>
    lat_step \<noteq> 0 \<and> lon_step \<noteq> 0 \<and>
    0 \<le> py_int ((lat_high - lat_low) / lat_step) \<and>
    0 \<le> py_int ((lon_high - lon_low) / lon_step) \<and>
    variables_lon ds = Some x \<and> variables_lat ds = Some y \<and> variables_day ds = Some d \<and>
    attrs ds ''reference_time'' = Some ref_time \<and>
    (case grid_dim of Some g \<Rightarrow> unpack4 g
       | None \<Rightarrow> Inr (lat_low, lat_high, lon_low, lon_high)) = Inr bnds \<and>
    variables_xch4 ds = Some v_xch4 \<and>
    index3 v_xch4 (var_and (var_ge y (fst bnds)) (var_lt y (fst (snd bnds))))
       (var_and (var_ge x (fst (snd (snd bnds)))) (var_lt x (snd (snd (snd bnds)))))
       (var_and (var_ge d date_min) (var_le d date_max)) = Inr xch4 \<and>
    variables_xch4_err ds = Some v_err \<and>
    index3 v_err (var_and (var_ge y (fst bnds)) (var_lt y (fst (snd bnds))))
       (var_and (var_ge x (fst (snd (snd bnds)))) (var_lt x (snd (snd (snd bnds)))))
       (var_and (var_ge d date_min) (var_le d date_max)) = Inr sdev \<and>
    variables_N ds = Some v_N \<and>
    index3 v_N (var_and (var_ge y (fst bnds)) (var_lt y (fst (snd bnds))))
       (var_and (var_ge x (fst (snd (snd bnds)))) (var_lt x (snd (snd (snd bnds)))))
       (var_and (var_ge d date_min) (var_le d date_max)) = Inr N \<and>
    index1 d (var_and (var_ge d date_min) (var_le d date_max)) = Inr d' \<and>
    index1 x (var_and (var_ge x (fst (snd (snd bnds)))) (var_lt x (snd (snd (snd bnds))))) = Inr x' \<and>
    index1 y (var_and (var_ge y (fst bnds)) (var_lt y (fst (snd bnds)))) = Inr y' \<and>
    tr = s @ [Opened path, Closed path] \<and>
    r = \<lparr>r_xch4 = xch4, r_sdev = sdev, r_N = N,
        r_x = values1 x', r_y = values1 y', r_d = d',
        r_grid_dim =
          [(''LAT_LOW'', fst bnds), (''LAT_HIGH'', fst (snd bnds)),
           (''LON_LOW'', fst (snd (snd bnds))), (''LON_HIGH'', snd (snd (snd bnds))),
           (''LAT_STEP'', lat_step), (''LON_STEP'', lon_step)],
        r_product_type = product_type,
        r_ref_time = ref_time\<rparr>)"
  unfolding load_grid_from_netcdf_def
  apply (simp only: bind_pure_Inr_iff bind_load_Inr_iff bind_close pure_io_eq Let_def split_def
      getitem_Inr_iff variables_Inr_iff as_num_Inr_iff py_truediv_Inr_iff np_zeros_Inr_iff
      fst_conv snd_conv append_assoc append.simps sum.inject)
  apply (rule iffI)
   apply (elim exE conjE)
   apply (intro exI conjI)
  apply (assumption | simp)+
   apply (elim exE conjE)
   apply (intro exI conjI)
  apply (assumption | simp)+
  done


section \<open>Calendar order and day offsets\<close>
















section \<open>What a normal return determines\<close>

lemma index3_shape:
  assumes "index3 v a b c = Inr w"
  shows "shape3 w = (length (true_indices (values1 a)), length (true_indices (values1 b)),
                     length (true_indices (values1 c))) \<and>
         length (data3 w) = length (true_indices (values1 a)) *
            length (true_indices (values1 b)) * length (true_indices (values1 c))"
  using index3_Inr_D(5,6) [OF assms] by simp


lemma load_grid_InrE:
  assumes "load_grid_from_netcdf fs d1 m1 y1 d2 m2 y2 path grid_dim s = (tr, Inr r)"
  obtains ds product_type lat_low lat_high lon_low lon_high lat_step lon_step ref_time
          x y d v_xch4 v_err v_N lat_min lat_max lon_min lon_max a b c
  where "check_date_fields y1 m1 d1" "check_date_fields y2 m2 d2"
    "fs path = Some ds"
    "declares ds product_type lat_low lat_high lon_low lon_high lat_step lon_step ref_time"
    "lat_step \<noteq> 0" "lon_step \<noteq> 0"
    "0 \<le> declared_bins lat_low lat_high lat_step" "0 \<le> declared_bins lon_low lon_high lon_step"
    "has_coords ds x y d" "has_arrays ds v_xch4 v_err v_N"
    "case grid_dim of Some g \<Rightarrow> g = [lat_min, lat_max, lon_min, lon_max]
       | None \<Rightarrow> lat_min = lat_low \<and> lat_max = lat_high \<and> lon_min = lon_low \<and> lon_max = lon_high"
    "index3 v_xch4 a b c = Inr (r_xch4 r)" "index3 v_err a b c = Inr (r_sdev r)"
    "index3 v_N a b c = Inr (r_N r)"
    "length (true_indices (values1 a)) = length (r_y r)"
    "length (true_indices (values1 b)) = length (r_x r)"
    "length (true_indices (values1 c)) = length (values1 (r_d r))"
    "r_y r = filter (\<lambda>e. lat_min \<le> e \<and> e < lat_max) (values1 y)"
    "r_x r = filter (\<lambda>e. lon_min \<le> e \<and> e < lon_max) (values1 x)"
    "r_d r = \<lparr>dim1 = dim1 d, values1 = filter (\<lambda>e. ymd2ord y1 m1 d1 - ymd2ord 1970 1 1 \<le> e \<and>
                e \<le> ymd2ord y2 m2 d2 - ymd2ord 1970 1 1) (values1 d)\<rparr>"
    "r_grid_dim r = [(''LAT_LOW'', lat_min), (''LAT_HIGH'', lat_max),
           (''LON_LOW'', lon_min), (''LON_HIGH'', lon_max),
           (''LAT_STEP'', lat_step), (''LON_STEP'', lon_step)]"
    "r_product_type r = product_type" "r_ref_time r = ref_time"
    "tr = s @ [Opened path, Closed path]"
proof -
  from assms obtain date_min date_max ds product_type lat_low lat_high lon_low lon_high
      lat_step lon_step x y d ref_time bnds v_xch4 v_err v_N xch4 sdev N d' x' y'
    where dates: "days_since_epoch y1 m1 d1 = Inr date_min"
        "days_since_epoch y2 m2 d2 = Inr date_max"
      and fsp: "fs path = Some ds"
      and at: "attrs ds ''product_type'' = Some product_type"
        "attrs ds ''lat_low'' = Some (Num lat_low)"
        "attrs ds ''lat_high'' = Some (Num lat_high)"
        "attrs ds ''lon_low'' = Some (Num lon_low)"
        "attrs ds ''lon_high'' = Some (Num lon_high)"
        "attrs ds ''lat_res'' = Some (Num lat_step)"
        "attrs ds ''lon_res'' = Some (Num lon_step)"
      and steps: "lat_step \<noteq> 0" "lon_step \<noteq> 0"
      and bins: "0 \<le> py_int ((lat_high - lat_low) / lat_step)"
        "0 \<le> py_int ((lon_high - lon_low) / lon_step)"
      and coords: "variables_lon ds = Some x" "variables_lat ds = Some y"
        "variables_day ds = Some d"
      and rt: "attrs ds ''reference_time'' = Some ref_time"
      and bnds: "(case grid_dim of Some g \<Rightarrow> unpack4 g
          | None \<Rightarrow> Inr (lat_low, lat_high, lon_low, lon_high)) = Inr bnds"
      and v1: "variables_xch4 ds = Some v_xch4"
      and i1: "index3 v_xch4 (var_and (var_ge y (fst bnds)) (var_lt y (fst (snd bnds))))
          (var_and (var_ge x (fst (snd (snd bnds)))) (var_lt x (snd (snd (snd bnds)))))
          (var_and (var_ge d date_min) (var_le d date_max)) = Inr xch4"
      and v2: "variables_xch4_err ds = Some v_err"
      and i2: "index3 v_err (var_and (var_ge y (fst bnds)) (var_lt y (fst (snd bnds))))
          (var_and (var_ge x (fst (snd (snd bnds)))) (var_lt x (snd (snd (snd bnds)))))
          (var_and (var_ge d date_min) (var_le d date_max)) = Inr sdev"
      and v3: "variables_N ds = Some v_N"
      and i3: "index3 v_N (var_and (var_ge y (fst bnds)) (var_lt y (fst (snd bnds))))
          (var_and (var_ge x (fst (snd (snd bnds)))) (var_lt x (snd (snd (snd bnds)))))
          (var_and (var_ge d date_min) (var_le d date_max)) = Inr N"
      and j: "index1 d (var_and (var_ge d date_min) (var_le d date_max)) = Inr d'"
        "index1 x (var_and (var_ge x (fst (snd (snd bnds)))) (var_lt x (snd (snd (snd bnds))))) = Inr x'"
        "index1 y (var_and (var_ge y (fst bnds)) (var_lt y (fst (snd bnds)))) = Inr y'"
      and trace: "tr = s @ [Opened path, Closed path]"
      and r: "r = \<lparr>r_xch4 = xch4, r_sdev = sdev, r_N = N,
          r_x = values1 x', r_y = values1 y', r_d = d',
          r_grid_dim =
            [(''LAT_LOW'', fst bnds), (''LAT_HIGH'', fst (snd bnds)),
             (''LON_LOW'', fst (snd (snd bnds))), (''LON_HIGH'', snd (snd (snd bnds))),
             (''LAT_STEP'', lat_step), (''LON_STEP'', lon_step)],
          r_product_type = product_type, r_ref_time = ref_time\<rparr>"
    unfolding load_grid_Inr_iff by (elim exE conjE) (rule that, assumption+)
  obtain lat_min lat_max lon_min lon_max where b: "bnds = (lat_min, lat_max, lon_min, lon_max)"
    by (cases bnds) auto
  from dates have dm: "date_min = ymd2ord y1 m1 d1 - ymd2ord 1970 1 1"
      "date_max = ymd2ord y2 m2 d2 - ymd2ord 1970 1 1"
    and valid: "check_date_fields y1 m1 d1" "check_date_fields y2 m2 d2"
    by (simp_all add: days_since_epoch_Inr_iff)
  from j have d': "d' = \<lparr>dim1 = dim1 d, values1 = filter (\<lambda>e. date_min \<le> e \<and> e \<le> date_max) (values1 d)\<rparr>"
    and x': "values1 x' = filter (\<lambda>e. lon_min \<le> e \<and> e < lon_max) (values1 x)"
    and y': "values1 y' = filter (\<lambda>e. lat_min \<le> e \<and> e < lat_max) (values1 y)"
    by (auto simp: index1_range_mask index1_closed_mask b)
  show thesis
  proof (rule that [of ds product_type lat_low lat_high lon_low lon_high lat_step lon_step ref_time
          x y d v_xch4 v_err v_N lat_min lat_max lon_min lon_max
          "var_and (var_ge y lat_min) (var_lt y lat_max)"
          "var_and (var_ge x lon_min) (var_lt x lon_max)"
          "var_and (var_ge d date_min) (var_le d date_max)"])
    show "declares ds product_type lat_low lat_high lon_low lon_high lat_step lon_step ref_time"
      using at rt by (simp add: declares_def)
    show "0 \<le> declared_bins lat_low lat_high lat_step" "0 \<le> declared_bins lon_low lon_high lon_step"
      using bins by (simp_all add: declared_bins_def)
    show "has_coords ds x y d" using coords by (simp add: has_coords_def)
    show "has_arrays ds v_xch4 v_err v_N" using v1 v2 v3 by (simp add: has_arrays_def)
    show "case grid_dim of Some g \<Rightarrow> g = [lat_min, lat_max, lon_min, lon_max]
       | None \<Rightarrow> lat_min = lat_low \<and> lat_max = lat_high \<and> lon_min = lon_low \<and> lon_max = lon_high"
      using bnds by (cases grid_dim) (auto simp: b unpack4_Inr_iff)
    show "index3 v_xch4 (var_and (var_ge y lat_min) (var_lt y lat_max))
        (var_and (var_ge x lon_min) (var_lt x lon_max))
        (var_and (var_ge d date_min) (var_le d date_max)) = Inr (r_xch4 r)"
      using i1 by (simp add: r b)
    show "index3 v_err (var_and (var_ge y lat_min) (var_lt y lat_max))
        (var_and (var_ge x lon_min) (var_lt x lon_max))
        (var_and (var_ge d date_min) (var_le d date_max)) = Inr (r_sdev r)"
      using i2 by (simp add: r b)
    show "index3 v_N (var_and (var_ge y lat_min) (var_lt y lat_max))
        (var_and (var_ge x lon_min) (var_lt x lon_max))
        (var_and (var_ge d date_min) (var_le d date_max)) = Inr (r_N r)"
      using i3 by (simp add: r b)
    show "length (true_indices (values1 (var_and (var_ge y lat_min) (var_lt y lat_max)))) = length (r_y r)"
      by (simp add: r y' values1_range_mask length_true_indices_map)
    show "length (true_indices (values1 (var_and (var_ge x lon_min) (var_lt x lon_max)))) = length (r_x r)"
      by (simp add: r x' values1_range_mask length_true_indices_map)
    show "length (true_indices (values1 (var_and (var_ge d date_min) (var_le d date_max)))) =
        length (values1 (r_d r))"
      by (simp add: r d' values1_closed_mask length_true_indices_map)
    show "r_y r = filter (\<lambda>e. lat_min \<le> e \<and> e < lat_max) (values1 y)" by (simp add: r y')
    show "r_x r = filter (\<lambda>e. lon_min \<le> e \<and> e < lon_max) (values1 x)" by (simp add: r x')
    show "r_d r = \<lparr>dim1 = dim1 d, values1 = filter (\<lambda>e. ymd2ord y1 m1 d1 - ymd2ord 1970 1 1 \<le> e \<and>
                e \<le> ymd2ord y2 m2 d2 - ymd2ord 1970 1 1) (values1 d)\<rparr>"
      by (simp add: r d' dm)
    show "r_grid_dim r = [(''LAT_LOW'', lat_min), (''LAT_HIGH'', lat_max),
           (''LON_LOW'', lon_min), (''LON_HIGH'', lon_max),
           (''LAT_STEP'', lat_step), (''LON_STEP'', lon_step)]"
      by (simp add: r b)
    show "r_product_type r = product_type" "r_ref_time r = ref_time" by (simp_all add: r)
  qed (fact valid fsp steps trace)+
qed

section \<open>When a call returns, and what it raises\<close>

lemma pure_io_apply: "pure_io m s = (s, m)"
  by (simp add: pure_io_def)



lemma bind_pure_cong:
  assumes "\<And>v. m = Inr v \<Longrightarrow> f v s = g v s"
  shows "bind_io (pure_io m) f s = bind_io (pure_io m) g s"
  using assms by (cases m) (simp_all add: bind_io_def pure_io_def)

lemma bind_load_cong:
  assumes "\<And>ds. fs path = Some ds \<Longrightarrow> f ds (s @ [Opened path]) = g ds (s @ [Opened path])"
  shows "bind_io (xr_load_dataset fs path) f s = bind_io (xr_load_dataset fs path) g s"
  using assms by (cases "fs path") (simp_all add: bind_io_def xr_load_dataset_def)









section \<open>Runs on the example files\<close>

lemma true_indices_Nil: "true_indices [] = []"
  by (simp add: true_indices_def)

lemma true_indices_Cons:
  "true_indices (b # bs) = (if b then [0] else []) @ map Suc (true_indices bs)"
proof -
  have "[0..<length (b # bs)] = 0 # map Suc [0..<length bs]"
    by (simp add: upt_conv_Cons map_Suc_upt del: upt_Suc)
  then show ?thesis
    by (simp add: true_indices_def filter_map comp_def del: upt_Suc)
qed

lemmas run_simps =
  load_grid_from_netcdf_def fs_example_def ds_small_def ds_mismatch_def cube_def
  bind_io_def pure_io_def xr_load_dataset_def ds_close_def
  days_since_epoch_def check_date_fields_def days_in_month_def is_leap_def
  DAYS_IN_MONTH_def ymd2ord_def days_before_year_def days_before_month_def DAYS_BEFORE_MONTH_def
  getitem_def as_num_def py_truediv_def py_int_def np_zeros_def unpack4_def variables_def
  var_and_def var_ge_def var_lt_def var_le_def valid_indexer_def index1_def index3_def
  true_indices_Nil true_indices_Cons

lemma small_run:
  "load_grid_from_netcdf fs_example 1 1 2018 2 1 2018 ''small.nc'' (Some [2, 6, 0, 2]) [] =
     ([Opened ''small.nc'', Closed ''small.nc''], Inr small_result)"
  by (simp add: run_simps small_result_def)



lemma offsets: "days_since_epoch 2018 1 1 = Inr 17532" "days_since_epoch 2018 1 2 = Inr 17533"
  "days_since_epoch 2018 2 1 = Inr 17563" "days_since_epoch 2019 1 1 = Inr 17897"
  "days_since_epoch 1970 1 1 = Inr 0" "days_since_epoch 2018 3 10 = Inr 17600"
  "days_since_epoch 2018 2 29 = Inl ValueError" "days_since_epoch 2020 2 29 = Inr 18321"
  by (simp_all add: days_since_epoch_def check_date_fields_def days_in_month_def is_leap_def
      DAYS_IN_MONTH_def ymd2ord_def days_before_year_def days_before_month_def DAYS_BEFORE_MONTH_def)

lemma valid_dates: "check_date_fields 2018 1 1" "check_date_fields 2018 1 2"
  "check_date_fields 2018 2 1" "check_date_fields 2019 1 1"
  by (simp_all add: check_date_fields_def days_in_month_def is_leap_def DAYS_IN_MONTH_def)

lemma fs_example_simps:
  "fs_example ''small.nc'' = Some ds_small"
  "fs_example ''mismatch.nc'' = Some ds_mismatch"
  "fs_example ''global.nc'' = Some ds_global"
  "fs_example ''nofile.nc'' = None"
  by (simp_all add: fs_example_def)

lemma ds_small_facts:
  "declares ds_small (Str ''WFMD'') 0 6 0 4 2 2 (Str ''1970-01-01'')"
  "has_coords ds_small \<lparr>dim1 = ''lon'', values1 = [0, 2]\<rparr> \<lparr>dim1 = ''lat'', values1 = [0, 2, 4]\<rparr>
     \<lparr>dim1 = ''day'', values1 = [17532, 17533]\<rparr>"
  "has_arrays ds_small (cube 3 2 2 [1, 2, 3, 4, 5, 6, 7, 8, 9, 10, 11, 12])
     (cube 3 2 2 [1, 1, 1, 1, 2, 2, 2, 2, 3, 3, 3, 3]) (cube 3 2 2 [5, 5, 5, 5, 5, 5, 6, 6, 6, 6, 6, 6])"
  "on_axes (cube 3 2 2 cells) \<lparr>dim1 = ''lat'', values1 = [0, 2, 4]\<rparr> \<lparr>dim1 = ''lon'', values1 = [0, 2]\<rparr>
     \<lparr>dim1 = ''day'', values1 = [17532, 17533]\<rparr>"
  "0 \<le> declared_bins 0 6 2" "0 \<le> declared_bins 0 4 2"
  by (simp_all add: declares_def has_coords_def has_arrays_def on_axes_def ds_small_def cube_def
      declared_bins_def py_int_def)










lemma nores_run:
  "load_grid_from_netcdf fs_example 1 1 2018 2 1 2018 ''nores.nc'' None [] =
     ([Opened ''nores.nc''], Inl (KeyError ''lat_res''))"
  by (simp add: run_simps)









section \<open>The claims\<close>

text \<open>
  C1. When \<^verbatim>\<open>load_grid_from_netcdf\<close> returns, every value of the returned day
  variable lies between the day offset of the start date and the day offset of the end
  date, both included; the offsets count days from 1970-01-01. The returned days are
  exactly the days of the file in that closed range, so a day equal to either end is
  kept.
\<close>

theorem day_selection_closed:
  assumes "days_since_epoch y1 m1 d1 = Inr start_offset"
    and "days_since_epoch y2 m2 d2 = Inr end_offset"
    and "load_grid_from_netcdf fs d1 m1 y1 d2 m2 y2 path grid_dim s = (tr, Inr r)"
  shows "(\<forall>v \<in> set (values1 (r_d r)). start_offset \<le> v \<and> v \<le> end_offset) \<and>
         (\<forall>ds x y d. fs path = Some ds \<and> has_coords ds x y d \<longrightarrow>
            values1 (r_d r) = filter (\<lambda>v. start_offset \<le> v \<and> v \<le> end_offset) (values1 d))"
proof -
  from assms(3) obtain ds x y d
    where "fs path = Some ds" "has_coords ds x y d"
      and "r_d r = \<lparr>dim1 = dim1 d, values1 = filter (\<lambda>e. ymd2ord y1 m1 d1 - ymd2ord 1970 1 1 \<le> e \<and>
                e \<le> ymd2ord y2 m2 d2 - ymd2ord 1970 1 1) (values1 d)\<rparr>"
    by (rule load_grid_InrE)
  with assms(1,2) show ?thesis
    by (auto simp: days_since_epoch_Inr_iff has_coords_def)
qed

theorem day_selection_closed_witness:
  "load_grid_from_netcdf fs_example 1 1 2018 2 1 2018 ''small.nc'' (Some [2, 6, 0, 2]) [] =
     ([Opened ''small.nc'', Closed ''small.nc''], Inr small_result) \<and>
   list_all (\<lambda>v. 17532 \<le> v \<and> v \<le> 17533) (values1 (r_d small_result)) \<and>
   values1 (r_d small_result) = filter (\<lambda>v. 17532 \<le> v \<and> v \<le> 17533) [17532, 17533]"
proof -
  note t = day_selection_closed [OF offsets(1) offsets(2) small_run]
  from t have "values1 (r_d small_result) =
      filter (\<lambda>v. 17532 \<le> v \<and> v \<le> 17533) (values1 \<lparr>dim1 = ''day'', values1 = [17532, 17533]\<rparr>)"
    using ds_small_facts(2) fs_example_simps(1) by blast
  with t small_run show ?thesis by (simp add: list_all_iff)
qed





text \<open>
  C3. When \<^verbatim>\<open>load_grid_from_netcdf\<close> returns, the value, error and count arrays
  have the same shape: the number of returned latitudes, of returned longitudes and
  of returned days, in this order; each holds as many cells as that shape has.
\<close>

theorem shapes_agree:
  assumes "load_grid_from_netcdf fs d1 m1 y1 d2 m2 y2 path grid_dim s = (tr, Inr r)"
  shows "shape3 (r_xch4 r) = (length (r_y r), length (r_x r), length (values1 (r_d r))) \<and>
         shape3 (r_sdev r) = shape3 (r_xch4 r) \<and> shape3 (r_N r) = shape3 (r_xch4 r) \<and>
         length (data3 (r_xch4 r)) = length (r_y r) * length (r_x r) * length (values1 (r_d r)) \<and>
         length (data3 (r_sdev r)) = length (r_y r) * length (r_x r) * length (values1 (r_d r)) \<and>
         length (data3 (r_N r)) = length (r_y r) * length (r_x r) * length (values1 (r_d r))"
proof -
  from assms obtain a b c v_xch4 v_err v_N
    where i: "index3 v_xch4 a b c = Inr (r_xch4 r)" "index3 v_err a b c = Inr (r_sdev r)"
      "index3 v_N a b c = Inr (r_N r)"
    and l: "length (true_indices (values1 a)) = length (r_y r)"
      "length (true_indices (values1 b)) = length (r_x r)"
      "length (true_indices (values1 c)) = length (values1 (r_d r))"
    by (rule load_grid_InrE)
  from index3_shape [OF i(1)] index3_shape [OF i(2)] index3_shape [OF i(3)] l
  show ?thesis by simp
qed

theorem shapes_agree_witness:
  "shape3 (r_xch4 small_result) = (2, 1, 2) \<and> shape3 (r_sdev small_result) = (2, 1, 2) \<and>
   shape3 (r_N small_result) = (2, 1, 2) \<and> length (r_y small_result) = 2 \<and>
   length (r_x small_result) = 1 \<and> length (values1 (r_d small_result)) = 2 \<and>
   length (data3 (r_xch4 small_result)) = 4"
  using shapes_agree [OF small_run] by (simp add: small_result_def)


text \<open>
  C4. For a file that declares its extent \<open>(lat_low, lat_high, lon_low, lon_high)\<close>,
  \<^verbatim>\<open>load_grid_from_netcdf\<close> without bounds gives what it gives with that extent as
  bounds: the same result, the same exception and the same trace.
\<close>

theorem default_bounds_are_declared_extent:
  assumes "fs path = Some ds"
    and "attrs ds ''lat_low'' = Some (Num lat_low)" "attrs ds ''lat_high'' = Some (Num lat_high)"
    and "attrs ds ''lon_low'' = Some (Num lon_low)" "attrs ds ''lon_high'' = Some (Num lon_high)"
  shows "load_grid_from_netcdf fs d1 m1 y1 d2 m2 y2 path None s =
         load_grid_from_netcdf fs d1 m1 y1 d2 m2 y2 path
           (Some [lat_low, lat_high, lon_low, lon_high]) s"
  unfolding load_grid_from_netcdf_def
  apply (simp only: Let_def option.case)
  apply (intro bind_pure_cong bind_load_cong)
  apply (insert assms)
  apply (simp add: getitem_Inr_iff as_num_Inr_iff unpack4_def)
  done

theorem default_bounds_are_declared_extent_witness:
  "load_grid_from_netcdf fs_example 1 1 2018 2 1 2018 ''small.nc'' None [] =
   load_grid_from_netcdf fs_example 1 1 2018 2 1 2018 ''small.nc'' (Some [0, 6, 0, 4]) []"
  using default_bounds_are_declared_extent [of fs_example "''small.nc''" ds_small 0 6 0 4
      1 1 2018 2 1 2018 "[]"]
  by (simp add: fs_example_simps ds_small_def)


















text \<open>
  C10. Bounds that are given and do not have exactly four elements make
  \<^verbatim>\<open>load_grid_from_netcdf\<close> raise, whatever the other arguments are. When the dates are
  valid and the file has its eight attributes, the numeric ones passing the two divisions
  and the allocation, and its three coordinate variables, the exception is
  \<^verbatim>\<open>ValueError\<close> and it is raised with the file opened and not closed.
\<close>

theorem bounds_need_four_elements:
  assumes "length g \<noteq> 4"
  shows "(\<exists>tr e. load_grid_from_netcdf fs d1 m1 y1 d2 m2 y2 path (Some g) s = (tr, Inl e)) \<and>
         (\<forall>ds product_type lat_low lat_high lon_low lon_high lat_step lon_step ref_time x y d.
            check_date_fields y1 m1 d1 \<and> check_date_fields y2 m2 d2 \<and> fs path = Some ds \<and>
            declares ds product_type lat_low lat_high lon_low lon_high lat_step lon_step ref_time \<and>
            lat_step \<noteq> 0 \<and> lon_step \<noteq> 0 \<and>
            0 \<le> declared_bins lat_low lat_high lat_step \<and>
            0 \<le> declared_bins lon_low lon_high lon_step \<and> has_coords ds x y d \<longrightarrow>
            load_grid_from_netcdf fs d1 m1 y1 d2 m2 y2 path (Some g) s =
              (s @ [Opened path], Inl ValueError))"
proof (intro conjI allI impI)
  obtain tr res where run: "load_grid_from_netcdf fs d1 m1 y1 d2 m2 y2 path (Some g) s = (tr, res)"
    by (cases "load_grid_from_netcdf fs d1 m1 y1 d2 m2 y2 path (Some g) s")
  show "\<exists>tr e. load_grid_from_netcdf fs d1 m1 y1 d2 m2 y2 path (Some g) s = (tr, Inl e)"
  proof (cases res)
    case (Inl e)
    with run show ?thesis by blast
  next
    case (Inr r)
    with run have "load_grid_from_netcdf fs d1 m1 y1 d2 m2 y2 path (Some g) s = (tr, Inr r)"
      by simp
    then obtain p q p' q' :: rat
      where "case Some g of Some g' \<Rightarrow> g' = [p, q, p', q'] | None \<Rightarrow>
          p = 0 \<and> q = 0 \<and> p' = 0 \<and> q' = 0"
      by (rule load_grid_InrE) (auto split: option.splits)
    with assms show ?thesis by simp
  qed
next
  fix ds product_type lat_low lat_high lon_low lon_high lat_step lon_step ref_time
    and x y :: "rat var1" and d :: "int var1"
  assume "check_date_fields y1 m1 d1 \<and> check_date_fields y2 m2 d2 \<and> fs path = Some ds \<and>
            declares ds product_type lat_low lat_high lon_low lon_high lat_step lon_step ref_time \<and>
            lat_step \<noteq> 0 \<and> lon_step \<noteq> 0 \<and>
            0 \<le> declared_bins lat_low lat_high lat_step \<and>
            0 \<le> declared_bins lon_low lon_high lon_step \<and> has_coords ds x y d"
  then show "load_grid_from_netcdf fs d1 m1 y1 d2 m2 y2 path (Some g) s =
              (s @ [Opened path], Inl ValueError)"
    unfolding load_grid_from_netcdf_def using unpack4_Inl [OF assms]
    by (simp add: bind_pure_Inr bind_pure_Inl bind_load_Some pure_io_apply days_since_epoch_def
        declares_def declared_bins_def has_coords_def getitem_def as_num_def
        py_truediv_def np_zeros_def variables_def)
qed

theorem bounds_need_four_elements_witness:
  "load_grid_from_netcdf fs_example 1 1 2018 2 1 2018 ''small.nc'' (Some [1, 2, 3]) [] =
     ([Opened ''small.nc''], Inl ValueError)"
proof -
  have "length [1, 2, 3 :: rat] \<noteq> 4" by simp
  from bounds_need_four_elements [OF this, of fs_example 1 1 2018 2 1 2018 "''small.nc''" "[]"]
  show ?thesis
    using valid_dates(1,2) fs_example_simps(1) ds_small_facts(1,2,5,6) by force
qed

end
